theory Spec2Isabelle
  imports Complex_Main "HOL-Library.Signed_Division"
begin

section \<open>The trading store of tradingService.ts\<close>

text \<open>
  The store of \<^verbatim>\<open>useTradingStore\<close> is modelled with explicit state passing. A JavaScript
  \<^verbatim>\<open>number\<close> holding an amount is an (idealised, finite) real number, a counter is a natural
  number and a \<^verbatim>\<open>Date.now()\<close> time stamp is an integer number of milliseconds. Everything
  the code obtains from outside (cookies, HTTP answers, the random draw, the clock) is an
  explicit input. The value that Vue keeps for the computed \<^verbatim>\<open>runningTime\<close> is a field of
  the store, \<open>None\<close> as long as the getter has to be run at the next read.
\<close>

subsection \<open>Data model\<close>

record TradeConfig =
  fromToken :: string
  toToken :: string
  contractAddress :: string
  minAmount :: real
  maxAmount :: real
  targetVolume :: real
  maxLossRate :: real
  minUSDTRequired :: real

record TradeRecord =
  time :: string
  buyAmount :: real
  sellAmount :: real
  profitLoss :: real
  cycleNumber :: nat

record Stats =
  startBalance :: real
  currentBalance :: real
  totalVolume :: real
  cyclesCompleted :: nat
  totalProfit :: real
  tradeHistory :: "TradeRecord list"
  startTime :: int
  lastUpdated :: int

text \<open>What a \<^verbatim>\<open>catch (error)\<close> of the source can receive.\<close>

datatype error =
    MissingCookie         \<comment> \<open>the \<^verbatim>\<open>Error\<close> thrown by \<^verbatim>\<open>getHeaders\<close>\<close>
  | AxiosError string     \<comment> \<open>the promise of \<^verbatim>\<open>axios.post\<close>/\<^verbatim>\<open>axios.get\<close> rejected\<close>
  | TypeError             \<comment> \<open>a property read on \<^verbatim>\<open>null\<close>/\<^verbatim>\<open>undefined\<close>, or a call of a non-function\<close>
  | SyntaxError           \<comment> \<open>thrown by \<^verbatim>\<open>JSON.parse\<close>\<close>

text \<open>The \<^verbatim>\<open>message\<close> of an order result: a text of the server, or the caught error.\<close>

datatype message = ServerMessage string | Caught error

text \<open>
  The lines pushed on \<^verbatim>\<open>logs\<close>, one constructor for each template string of the source,
  with the values the template interpolates.
\<close>

datatype log_entry =
    QuoteError error                  \<comment> \<open>line 114\<close>
  | BuyError error                    \<comment> \<open>line 129\<close>
  | SellError error                   \<comment> \<open>line 144\<close>
  | BalanceError error                \<comment> \<open>line 160\<close>
  | InsufficientBalance real real     \<comment> \<open>line 173\<close>
  | CycleStart nat real string        \<comment> \<open>line 182\<close>
  | BuyFailed message                 \<comment> \<open>line 212\<close>
  | SellFailed message                \<comment> \<open>line 245\<close>
  | TradeSuccess real string real     \<comment> \<open>line 264\<close>
  | CycleError error                  \<comment> \<open>line 268\<close>
  | TradingStarted                    \<comment> \<open>line 279\<close>
  | RetryWarning                      \<comment> \<open>line 285\<close>
  | TradingStopped                    \<comment> \<open>line 299\<close>

text \<open>
  The request headers of \<^verbatim>\<open>getHeaders\<close>. \<^verbatim>\<open>CryptoJS.MD5\<close> is a library function: the token
  is the symbolic hash \<open>MD5 v\<close> of the cookie value.
\<close>

datatype token = MD5 string

record headers =
  Accept :: string
  ContentType :: string
  clienttype :: string
  csrftoken :: token

text \<open>The JSON object passed as request body: its keys, in the order written, and values.\<close>

datatype pvalue = S string | N real

type_synonym params = "(string \<times> pvalue) list"

datatype request =
    QuoteRequest params headers     \<comment> \<open>POST .../swap/cex/get-quote\<close>
  | BuyRequest params headers       \<comment> \<open>POST .../swap/cex/buy/pre/payment\<close>
  | SellRequest params headers      \<comment> \<open>POST .../swap/cex/sell/pre/payment\<close>
  | BalanceRequest headers          \<comment> \<open>GET .../asset-service/wallet/balance\<close>

text \<open>
  The text stored under a key of \<^verbatim>\<open>localStorage\<close>. \<^verbatim>\<open>JSON.stringify\<close> and \<^verbatim>\<open>JSON.parse\<close>
  are functions of the platform: a text that \<^verbatim>\<open>JSON.parse\<close> accepts is represented by the
  value it parses to.
\<close>

datatype stored_text =
    Raw string              \<comment> \<open>a text that \<^verbatim>\<open>JSON.parse\<close> rejects; \<open>Raw []\<close> is the empty string\<close>
  | ConfigJson TradeConfig  \<comment> \<open>the text \<^verbatim>\<open>JSON.stringify\<close> writes for a TradeConfig\<close>
  | OtherJson string        \<comment> \<open>well-formed JSON text of any other shape\<close>

record store =
  config :: TradeConfig
  stats :: Stats
  logs :: "log_entry list"
  isTrading :: bool
  isConnected :: bool
  localStorage :: "string \<rightharpoonup> stored_text"   \<comment> \<open>the browser's \<^verbatim>\<open>localStorage\<close>\<close>
  outbox :: "request list"               \<comment> \<open>the requests handed to axios so far, oldest first\<close>
  runningTimeCache :: "string option"    \<comment> \<open>the value held by the computed \<^verbatim>\<open>runningTime\<close>\<close>

definition defaultConfig :: TradeConfig where
  "defaultConfig =
     \<lparr> fromToken = ''USDT'', toToken = ''B2'',
       contractAddress = ''0x783c3f003f172c6ac5ac700218a357d2d66ee2a2'',
       minAmount = 10, maxAmount = 20, targetVolume = 8192,
       maxLossRate = 4 / 1000, minUSDTRequired = 50 \<rparr>"

definition initStats :: Stats where
  "initStats =
     \<lparr> startBalance = 0, currentBalance = 0, totalVolume = 0, cyclesCompleted = 0,
       totalProfit = 0, tradeHistory = [], startTime = 0, lastUpdated = 0 \<rparr>"

text \<open>The store as \<^verbatim>\<open>defineStore\<close> creates it, in a browser whose storage is \<open>ls\<close>.\<close>

definition initStore :: "(string \<rightharpoonup> stored_text) \<Rightarrow> store" where
  "initStore ls =
     \<lparr> config = defaultConfig, stats = initStats, logs = [], isTrading = False,
       isConnected = False, localStorage = ls, outbox = [], runningTimeCache = None \<rparr>"

subsection \<open>Cookies and request headers\<close>

text \<open>\<^verbatim>\<open>String.prototype.split\<close> with a one-character separator.\<close>

fun split :: "char \<Rightarrow> string \<Rightarrow> string list" where
  "split sep [] = [[]]"
| "split sep (c # cs) =
     (if c = sep then [] # split sep cs
      else (case split sep cs of [] \<Rightarrow> [[c]] | p # ps \<Rightarrow> (c # p) # ps))"

text \<open>
  The white space that \<^verbatim>\<open>trim\<close> removes, among the characters below 256 (a character of
  the model is a code unit of the JavaScript string): tab, line feed, vertical tab, form
  feed, carriage return, space and the no-break space U+00A0.
\<close>

definition isSpace :: "char \<Rightarrow> bool" where
  "isSpace c =
     (c \<in> set [CHR '' '', CHR 0x09, CHR 0x0A, CHR 0x0B, CHR 0x0C, CHR 0x0D, CHR 0xA0])"

definition trim :: "string \<Rightarrow> string" where
  "trim s = rev (dropWhile isSpace (rev (dropWhile isSpace s)))"

definition startsWith :: "string \<Rightarrow> string \<Rightarrow> bool" where
  "startsWith s p = (take (length p) s = p)"

text \<open>
  \<^verbatim>\<open>getCookieValue(name)\<close> on the text of \<^verbatim>\<open>document.cookie\<close>: the first cookie, once
  trimmed, that starts with \<^verbatim>\<open>name=\<close>; \<open>None\<close> is \<^verbatim>\<open>null\<close>.
\<close>

definition getCookieValue :: "string \<Rightarrow> string \<Rightarrow> string option" where
  "getCookieValue name documentCookie =
     (case find (\<lambda>cookie. startsWith cookie (name @ ''='')) (map trim (split CHR '';'' documentCookie)) of
        None \<Rightarrow> None
      | Some cookie \<Rightarrow> Some (drop (length name + 1) cookie))"

text \<open>\<^verbatim>\<open>getHeaders()\<close>: \<^verbatim>\<open>!cr00\<close> holds for \<^verbatim>\<open>null\<close> and for the empty string.\<close>

definition getHeaders :: "string \<Rightarrow> error + headers" where
  "getHeaders documentCookie =
     (case getCookieValue ''cr00'' documentCookie of
        None \<Rightarrow> Inl MissingCookie
      | Some cr00 \<Rightarrow>
          if cr00 = [] then Inl MissingCookie
          else Inr \<lparr> Accept = ''*/*'', ContentType = ''application/json'',
                     clienttype = ''web'', csrftoken = MD5 cr00 \<rparr>)"

subsection \<open>The four remote operations\<close>

text \<open>
  One outbound call: the text of \<^verbatim>\<open>document.cookie\<close> when the call is made, and what the
  promise of axios settles to; \<open>Resolves b\<close> carries the \<^verbatim>\<open>response.data\<close>.
\<close>

datatype 'b axios = Rejects string | Resolves 'b

record 'b call =
  documentCookie :: string
  answer :: "'b axios"

text \<open>
  A computation of the store that may throw: the store as the computation leaves it comes
  with either the thrown error (\<open>Inl\<close>) or the returned value (\<open>Inr\<close>).
\<close>

type_synonym 'a js = "store \<Rightarrow> (error + 'a) \<times> store"

text \<open>
  \<^verbatim>\<open>axios.post(url, params, { headers: getHeaders() })\<close>: the headers are computed first,
  and their error is thrown before anything is sent.
\<close>

definition axiosCall :: "'b call \<Rightarrow> (headers \<Rightarrow> request) \<Rightarrow> 'b js" where
  "axiosCall c req s =
     (case getHeaders (documentCookie c) of
        Inl e \<Rightarrow> (Inl e, s)
      | Inr h \<Rightarrow>
          (let s' = s\<lparr>outbox := outbox s @ [req h]\<rparr>
           in case answer c of
                Rejects m \<Rightarrow> (Inl (AxiosError m), s')
              | Resolves b \<Rightarrow> (Inr b, s')))"

text \<open>
  The \<^verbatim>\<open>response.data\<close> of the quote endpoint, as far as the code looks at it:
  \<open>NoBody\<close> when it is \<^verbatim>\<open>null\<close>/\<^verbatim>\<open>undefined\<close> (reading \<^verbatim>\<open>.data\<close> throws), \<open>NoQuote\<close> when
  its \<^verbatim>\<open>.data\<close> is falsy, and a quote otherwise.
\<close>

record quote =
  toCoinAmount :: real
  extra :: string

datatype quote_body = NoBody | NoQuote | QuoteOf quote

text \<open>\<^verbatim>\<open>getQuote\<close>: \<open>None\<close> stands for \<^verbatim>\<open>null\<close> and for any other falsy value returned.\<close>

definition getQuote_try :: "quote_body call \<Rightarrow> params \<Rightarrow> (quote option) js" where
  "getQuote_try c ps s =
     (case axiosCall c (QuoteRequest ps) s of
        (Inl e, s') \<Rightarrow> (Inl e, s')
      | (Inr NoBody, s') \<Rightarrow> (Inl TypeError, s')
      | (Inr NoQuote, s') \<Rightarrow> (Inr None, s')
      | (Inr (QuoteOf q), s') \<Rightarrow> (Inr (Some q), s'))"

definition getQuote :: "quote_body call \<Rightarrow> params \<Rightarrow> (quote option) js" where
  "getQuote c ps s =
     (case getQuote_try c ps s of
        (Inl e, s') \<Rightarrow> (Inr None, s'\<lparr>logs := logs s' @ [QuoteError e]\<rparr>)
      | (Inr q, s') \<Rightarrow> (Inr q, s'))"

text \<open>
  The \<^verbatim>\<open>response.data\<close> of the two order endpoints: \<open>NoOrder\<close> when it is
  \<^verbatim>\<open>null\<close>/\<^verbatim>\<open>undefined\<close>; otherwise the truth value of its \<^verbatim>\<open>.success\<close> and its \<^verbatim>\<open>.message\<close>.
\<close>

record order_result =
  success :: bool
  message :: message

datatype order_body = NoOrder | Order order_result

definition buyToken :: "order_body call \<Rightarrow> params \<Rightarrow> order_body js" where
  "buyToken c ps s =
     (case axiosCall c (BuyRequest ps) s of
        (Inl e, s') \<Rightarrow>
          (Inr (Order \<lparr>success = False, message = Caught e\<rparr>), s'\<lparr>logs := logs s' @ [BuyError e]\<rparr>)
      | (Inr b, s') \<Rightarrow> (Inr b, s'))"

definition sellToken :: "order_body call \<Rightarrow> params \<Rightarrow> order_body js" where
  "sellToken c ps s =
     (case axiosCall c (SellRequest ps) s of
        (Inl e, s') \<Rightarrow>
          (Inr (Order \<lparr>success = False, message = Caught e\<rparr>), s'\<lparr>logs := logs s' @ [SellError e]\<rparr>)
      | (Inr b, s') \<Rightarrow> (Inr b, s'))"

text \<open>
  The \<^verbatim>\<open>response.data\<close> of the balance endpoint: \<open>NoAccounts\<close> when
  \<^verbatim>\<open>response.data.data.find\<close> throws (no body, no \<^verbatim>\<open>.data\<close>, or not an array), and the
  array of accounts otherwise. An account without \<^verbatim>\<open>assetBalances\<close> has \<open>None\<close> there;
  \<open>free\<close> is the number \<^verbatim>\<open>parseFloat\<close> reads.
\<close>

record asset_balance =
  asset :: string
  free :: real

record account =
  accountType :: string
  assetBalances :: "asset_balance list option"

datatype balance_body = NoAccounts | Accounts "account list"

definition getUSDTBalance_try :: "balance_body call \<Rightarrow> real js" where
  "getUSDTBalance_try c s =
     (case axiosCall c BalanceRequest s of
        (Inl e, s') \<Rightarrow> (Inl e, s')
      | (Inr NoAccounts, s') \<Rightarrow> (Inl TypeError, s')
      | (Inr (Accounts accounts), s') \<Rightarrow>
          (case find (\<lambda>account. accountType account = ''MAIN'') accounts of
             None \<Rightarrow> (Inr 0, s')
           | Some spotAccount \<Rightarrow>
               (case assetBalances spotAccount of
                  None \<Rightarrow> (Inl TypeError, s')
                | Some balances \<Rightarrow>
                    (case find (\<lambda>a. asset a = ''USDT'') balances of
                       None \<Rightarrow> (Inr 0, s')
                     | Some usdt \<Rightarrow> (Inr (free usdt), s')))))"

definition getUSDTBalance :: "balance_body call \<Rightarrow> real js" where
  "getUSDTBalance c s =
     (case getUSDTBalance_try c s of
        (Inl e, s') \<Rightarrow> (Inr 0, s'\<lparr>logs := logs s' @ [BalanceError e]\<rparr>)
      | (Inr b, s') \<Rightarrow> (Inr b, s'))"

subsection \<open>One trading cycle\<close>

text \<open>
  What one call of \<^verbatim>\<open>runCycle\<close> obtains from outside, in the order it asks for it. A cycle
  that returns early leaves the later fields unread.
\<close>

record world =
  balanceCall :: "balance_body call"
  mathRandom :: real                     \<comment> \<open>\<^verbatim>\<open>Math.random()\<close>\<close>
  buyQuoteCall :: "quote_body call"
  buyCall :: "order_body call"
  sellQuoteCall :: "quote_body call"
  sellCall :: "order_body call"
  isoTime :: string                      \<comment> \<open>\<^verbatim>\<open>new Date().toISOString()\<close>\<close>
  now :: int                             \<comment> \<open>\<^verbatim>\<open>Date.now()\<close>\<close>

definition buyQuoteParams :: "TradeConfig \<Rightarrow> real \<Rightarrow> params" where
  "buyQuoteParams cfg fromAmount =
     [(''fromToken'', S (fromToken cfg)), (''fromBinanceChainId'', S ''56''),
      (''fromCoinAmount'', N fromAmount), (''toToken'', S (toToken cfg)),
      (''toBinanceChainId'', S ''56''), (''toContractAddress'', S (contractAddress cfg)),
      (''priorityMode'', S ''priorityOnCustom''),
      (''customNetworkFeeMode'', S ''priorityOnSuccess''), (''customSlippage'', S ''0.001'')]"

definition buyParams :: "TradeConfig \<Rightarrow> real \<Rightarrow> quote \<Rightarrow> params" where
  "buyParams cfg fromAmount buyQuote =
     [(''fromToken'', S (fromToken cfg)), (''fromBinanceChainId'', S ''56''),
      (''fromCoinAmount'', N fromAmount), (''toToken'', S (toToken cfg)),
      (''toContractAddress'', S (contractAddress cfg)),
      (''toCoinAmount'', N (toCoinAmount buyQuote)),
      (''priorityMode'', S ''priorityOnPrice''), (''extra'', S (extra buyQuote))]"

definition sellQuoteParams :: "TradeConfig \<Rightarrow> quote \<Rightarrow> params" where
  "sellQuoteParams cfg buyQuote =
     [(''fromToken'', S (toToken cfg)), (''fromBinanceChainId'', S ''56''),
      (''fromContractAddress'', S (contractAddress cfg)),
      (''fromCoinAmount'', N (toCoinAmount buyQuote)), (''toToken'', S (fromToken cfg)),
      (''toBinanceChainId'', S ''56''), (''toContractAddress'', S []),
      (''priorityMode'', S ''priorityOnCustom''),
      (''customNetworkFeeMode'', S ''priorityOnSuccess''), (''customSlippage'', S ''0.001'')]"

definition sellParams :: "TradeConfig \<Rightarrow> quote \<Rightarrow> quote \<Rightarrow> params" where
  "sellParams cfg buyQuote sellQuote =
     [(''fromToken'', S (toToken cfg)), (''fromBinanceChainId'', S ''56''),
      (''fromContractAddress'', S (contractAddress cfg)),
      (''fromCoinAmount'', N (toCoinAmount buyQuote)), (''toToken'', S (fromToken cfg)),
      (''toBinanceChainId'', S ''56''), (''toCoinAmount'', N (toCoinAmount sellQuote)),
      (''priorityMode'', S ''priorityOnPrice''), (''extra'', S (extra sellQuote))]"

text \<open>Lines 249 to 264: the record of the completed cycle and the update of the statistics.\<close>

definition recordTrade :: "world \<Rightarrow> real \<Rightarrow> quote \<Rightarrow> store \<Rightarrow> store" where
  "recordTrade w fromAmount sellQuote s =
     (let st = stats s;
          newTrade = \<lparr> time = isoTime w, buyAmount = fromAmount,
                       sellAmount = toCoinAmount sellQuote,
                       profitLoss = toCoinAmount sellQuote - fromAmount,
                       cycleNumber = cyclesCompleted st + 1 \<rparr>;
          st' = st\<lparr> tradeHistory := tradeHistory st @ [newTrade],
                    totalVolume := totalVolume st + fromAmount,
                    totalProfit := totalProfit st + profitLoss newTrade,
                    cyclesCompleted := cyclesCompleted st + 1,
                    lastUpdated := now w \<rparr>
      in s\<lparr> stats := st',
            logs := logs s @ [TradeSuccess fromAmount (fromToken (config s)) (toCoinAmount sellQuote)] \<rparr>)"

text \<open>
  The body of the \<^verbatim>\<open>try\<close> of \<^verbatim>\<open>runCycle\<close>. Reading \<^verbatim>\<open>.success\<close> of an order result that is
  \<^verbatim>\<open>null\<close>/\<^verbatim>\<open>undefined\<close> throws a TypeError.
\<close>

definition runCycle_try :: "world \<Rightarrow> bool js" where
  "runCycle_try w s0 =
     (case getUSDTBalance (balanceCall w) s0 of
        (Inl e, s1) \<Rightarrow> (Inl e, s1)
      | (Inr usdtBalance, s1) \<Rightarrow>
     (let s2 = s1\<lparr>stats := (stats s1)\<lparr>currentBalance := usdtBalance\<rparr>\<rparr>;
          cfg = config s2
      in if usdtBalance < minUSDTRequired cfg
         then (Inr False,
               s2\<lparr>logs := logs s2 @ [InsufficientBalance usdtBalance (minUSDTRequired cfg)]\<rparr>)
         else
     (let fromAmount = mathRandom w * (maxAmount cfg - minAmount cfg) + minAmount cfg;
          s3 = s2\<lparr>logs := logs s2 @
                  [CycleStart (cyclesCompleted (stats s2) + 1) fromAmount (fromToken cfg)]\<rparr>
      in case getQuote (buyQuoteCall w) (buyQuoteParams cfg fromAmount) s3 of
           (Inl e, s4) \<Rightarrow> (Inl e, s4)
         | (Inr None, s4) \<Rightarrow> (Inr False, s4)
         | (Inr (Some buyQuote), s4) \<Rightarrow>
     (case buyToken (buyCall w) (buyParams cfg fromAmount buyQuote) s4 of
        (Inl e, s5) \<Rightarrow> (Inl e, s5)
      | (Inr NoOrder, s5) \<Rightarrow> (Inl TypeError, s5)
      | (Inr (Order buyResult), s5) \<Rightarrow>
          if \<not> success buyResult
          then (Inr False, s5\<lparr>logs := logs s5 @ [BuyFailed (message buyResult)]\<rparr>)
          else
     (case getQuote (sellQuoteCall w) (sellQuoteParams cfg buyQuote) s5 of
        (Inl e, s6) \<Rightarrow> (Inl e, s6)
      | (Inr None, s6) \<Rightarrow> (Inr False, s6)
      | (Inr (Some sellQuote), s6) \<Rightarrow>
     (case sellToken (sellCall w) (sellParams cfg buyQuote sellQuote) s6 of
        (Inl e, s7) \<Rightarrow> (Inl e, s7)
      | (Inr NoOrder, s7) \<Rightarrow> (Inl TypeError, s7)
      | (Inr (Order sellResult), s7) \<Rightarrow>
          if \<not> success sellResult
          then (Inr False, s7\<lparr>logs := logs s7 @ [SellFailed (message sellResult)]\<rparr>)
          else (Inr True, recordTrade w fromAmount sellQuote s7)))))))"

definition runCycle :: "world \<Rightarrow> bool js" where
  "runCycle w s =
     (case runCycle_try w s of
        (Inl e, s') \<Rightarrow> (Inr False, s'\<lparr>logs := logs s' @ [CycleError e]\<rparr>)
      | (Inr b, s') \<Rightarrow> (Inr b, s'))"

subsection \<open>The control loop\<close>

definition stopTrading :: "store \<Rightarrow> store" where
  "stopTrading s = s\<lparr>isTrading := False, logs := logs s @ [TradingStopped]\<rparr>"

text \<open>
  Where a call of \<^verbatim>\<open>startTrading\<close> stands between two of its steps: suspended in the
  30000 ms timer of line 286, suspended in the 60000 ms timer of line 290, returned, or
  ended by an error that \<^verbatim>\<open>runCycle\<close> let through.
\<close>

datatype pc = Backoff | InterCycle | Returned | Aborted error

definition delayOf :: "pc \<Rightarrow> nat" where
  "delayOf p = (case p of Backoff \<Rightarrow> 30000 | InterCycle \<Rightarrow> 60000 | _ \<Rightarrow> 0)"

text \<open>
  From the test of the \<^verbatim>\<open>while\<close> to the next timer, or to the end of the function. The
  cycle is taken as one step: what else happens during its awaits is not modelled.
\<close>

definition loopTop :: "world \<Rightarrow> store \<Rightarrow> pc \<times> store" where
  "loopTop w s =
     (if isTrading s \<and> totalVolume (stats s) < targetVolume (config s)
      then (case runCycle w s of
              (Inl e, s') \<Rightarrow> (Aborted e, s')
            | (Inr ok, s') \<Rightarrow>
                if \<not> ok then (Backoff, s'\<lparr>logs := logs s' @ [RetryWarning]\<rparr>)
                else (InterCycle, s'))
      else (Returned, stopTrading s))"

text \<open>
  \<^verbatim>\<open>startTrading()\<close> called at time \<open>t\<close>, up to its first timer. The write to
  \<^verbatim>\<open>stats.value.startTime\<close> is the only write of the store to what the getter of
  \<^verbatim>\<open>runningTime\<close> reads: when it changes the value, the computed has to be run again.
\<close>

definition startTrading :: "int \<Rightarrow> world \<Rightarrow> store \<Rightarrow> pc \<times> store" where
  "startTrading t w s =
     (if isTrading s then (Returned, s)
      else loopTop w (s\<lparr> isTrading := True, stats := (stats s)\<lparr>startTime := t\<rparr>,
                          runningTimeCache :=
                            (if t = startTime (stats s) then runningTimeCache s else None),
                          logs := logs s @ [TradingStarted] \<rparr>))"

text \<open>
  The timer the call is suspended in fires: after the backoff timer comes the inter-cycle
  timer, after the inter-cycle timer the test of the \<^verbatim>\<open>while\<close>.
\<close>

fun resume :: "world \<Rightarrow> pc \<times> store \<Rightarrow> pc \<times> store" where
  "resume w (Backoff, s) = (InterCycle, s)"
| "resume w (InterCycle, s) = loopTop w s"
| "resume w (Returned, s) = (Returned, s)"
| "resume w (Aborted e, s) = (Aborted e, s)"

text \<open>
  The suspended call left to itself until it returns, one world for each timer that
  fires; \<open>None\<close> when the worlds run out while the call is still suspended.
\<close>

fun driveLoop :: "world list \<Rightarrow> pc \<times> store \<Rightarrow> store option" where
  "driveLoop ws (Returned, s) = Some s"
| "driveLoop ws (Aborted e, s) = None"
| "driveLoop [] (p, s) = None"
| "driveLoop (w # ws) (p, s) = driveLoop ws (resume w (p, s))"

text \<open>
  The time the suspended call spends in its timers until it returns, each timer counted
  with its full length.
\<close>

fun timeToReturn :: "world list \<Rightarrow> pc \<times> store \<Rightarrow> nat option" where
  "timeToReturn ws (Returned, s) = Some 0"
| "timeToReturn ws (Aborted e, s) = None"
| "timeToReturn [] (p, s) = None"
| "timeToReturn (w # ws) (p, s) =
     map_option (\<lambda>n. delayOf p + n) (timeToReturn ws (resume w (p, s)))"

subsection \<open>Persisted configuration\<close>

definition saveConfig :: "store \<Rightarrow> store" where
  "saveConfig s = s\<lparr>localStorage := (localStorage s)(''tradingConfig'' \<mapsto> ConfigJson (config s))\<rparr>"

text \<open>
  What a call of \<^verbatim>\<open>loadConfig\<close> does: it throws, it returns and leaves the store as
  given, or it assigns to \<^verbatim>\<open>config.value\<close> a parsed value that is no TradeConfig (given by
  its text), which the typed store cannot hold.
\<close>

datatype load_result = Throws error | Returns store | AssignsUntyped string

definition loadConfig :: "store \<Rightarrow> load_result" where
  "loadConfig s =
     (case localStorage s ''tradingConfig'' of
        None \<Rightarrow> Returns s
      | Some savedConfig \<Rightarrow>
          if savedConfig = Raw [] then Returns s
          else (case savedConfig of
                  Raw x \<Rightarrow> Throws SyntaxError
                | ConfigJson cfg \<Rightarrow> Returns (s\<lparr>config := cfg\<rparr>)
                | OtherJson j \<Rightarrow> AssignsUntyped j))"

subsection \<open>Running time\<close>

definition digitChar :: "nat \<Rightarrow> char" where
  "digitChar d = ''0123456789'' ! d"

fun digitsOf :: "nat \<Rightarrow> string" where
  "digitsOf n = (if n < 10 then [digitChar n] else digitsOf (n div 10) @ [digitChar (n mod 10)])"

declare digitsOf.simps [simp del]

text \<open>\<^verbatim>\<open>Number.prototype.toString\<close> on an integer.\<close>

definition toString :: "int \<Rightarrow> string" where
  "toString k = (if k < 0 then CHR ''-'' # digitsOf (nat (- k)) else digitsOf (nat k))"

text \<open>\<^verbatim>\<open>padStart(2, '0')\<close>.\<close>

definition padStart2 :: "string \<Rightarrow> string" where
  "padStart2 s = replicate (2 - length s) CHR ''0'' @ s"

text \<open>
  The getter passed to \<^verbatim>\<open>computed\<close> in line 57, run when \<^verbatim>\<open>Date.now()\<close> is \<open>t\<close>.
  \<^verbatim>\<open>Math.floor(a / b)\<close> of integers is \<open>div\<close>; the \<^verbatim>\<open>%\<close> of JavaScript takes the sign of
  the dividend, as \<open>smod\<close> does.
\<close>

definition runningTime_getter :: "int \<Rightarrow> store \<Rightarrow> string" where
  "runningTime_getter t s =
     (if startTime (stats s) = 0 then ''00:00:00''
      else (let runningTime = t - startTime (stats s);
                hours = runningTime div (1000 * 60 * 60);
                minutes = (runningTime smod (1000 * 60 * 60)) div (1000 * 60);
                seconds = (runningTime smod (1000 * 60)) div 1000
            in padStart2 (toString hours) @ '':'' @ padStart2 (toString minutes) @ '':'' @
               padStart2 (toString seconds)))"

text \<open>
  A read of the computed \<^verbatim>\<open>runningTime\<close> at time \<open>t\<close>. Vue runs the getter only when what
  it read at its last run has changed since, and that is \<^verbatim>\<open>stats.value.startTime\<close> alone
  (\<^verbatim>\<open>Date.now()\<close> is not reactive); otherwise the read returns the value kept from the last
  run.
\<close>

definition runningTime :: "int \<Rightarrow> store \<Rightarrow> string \<times> store" where
  "runningTime t s =
     (case runningTimeCache s of
        Some v \<Rightarrow> (v, s)
      | None \<Rightarrow> (runningTime_getter t s, s\<lparr>runningTimeCache := Some (runningTime_getter t s)\<rparr>))"

section \<open>Notions used in the properties\<close>

text \<open>The two legs of a cycle, named so that each can be reasoned about on its own.\<close>

definition sellLeg :: "world \<Rightarrow> TradeConfig \<Rightarrow> real \<Rightarrow> quote \<Rightarrow> bool js" where
  "sellLeg w cfg fromAmount buyQuote s5 =
     (case getQuote (sellQuoteCall w) (sellQuoteParams cfg buyQuote) s5 of
        (Inl e, s6) \<Rightarrow> (Inl e, s6)
      | (Inr None, s6) \<Rightarrow> (Inr False, s6)
      | (Inr (Some sellQuote), s6) \<Rightarrow>
     (case sellToken (sellCall w) (sellParams cfg buyQuote sellQuote) s6 of
        (Inl e, s7) \<Rightarrow> (Inl e, s7)
      | (Inr NoOrder, s7) \<Rightarrow> (Inl TypeError, s7)
      | (Inr (Order sellResult), s7) \<Rightarrow>
          if \<not> success sellResult
          then (Inr False, s7\<lparr>logs := logs s7 @ [SellFailed (message sellResult)]\<rparr>)
          else (Inr True, recordTrade w fromAmount sellQuote s7)))"

definition buyLeg :: "world \<Rightarrow> TradeConfig \<Rightarrow> real \<Rightarrow> bool js" where
  "buyLeg w cfg fromAmount s3 =
     (case getQuote (buyQuoteCall w) (buyQuoteParams cfg fromAmount) s3 of
        (Inl e, s4) \<Rightarrow> (Inl e, s4)
      | (Inr None, s4) \<Rightarrow> (Inr False, s4)
      | (Inr (Some buyQuote), s4) \<Rightarrow>
     (case buyToken (buyCall w) (buyParams cfg fromAmount buyQuote) s4 of
        (Inl e, s5) \<Rightarrow> (Inl e, s5)
      | (Inr NoOrder, s5) \<Rightarrow> (Inl TypeError, s5)
      | (Inr (Order buyResult), s5) \<Rightarrow>
          if \<not> success buyResult
          then (Inr False, s5\<lparr>logs := logs s5 @ [BuyFailed (message buyResult)]\<rparr>)
          else sellLeg w cfg fromAmount buyQuote s5))"

text \<open>What the remote operations leave alone: everything but the log and the outbox.\<close>

definition unchanged :: "store \<Rightarrow> store \<Rightarrow> bool" where
  "unchanged s s' =
     (config s' = config s \<and> stats s' = stats s \<and> isTrading s' = isTrading s \<and>
      isConnected s' = isConnected s \<and> localStorage s' = localStorage s \<and>
      runningTimeCache s' = runningTimeCache s)"

definition statsInvariant :: "Stats \<Rightarrow> bool" where
  "statsInvariant st =
     (cyclesCompleted st = length (tradeHistory st) \<and>
      totalVolume st = sum_list (map buyAmount (tradeHistory st)))"

text \<open>
  The stores that the operations of the store object produce from a fresh store, together
  with what its user can do to it: edit the configuration (the panel binds its inputs to
  \<^verbatim>\<open>config\<close>), save and load it, start a run, stop it, read the running time, and let a
  timer of a suspended run fire.
\<close>

inductive reachable :: "store \<Rightarrow> bool" where
  init: "reachable (initStore ls)"
| edit: "reachable s \<Longrightarrow> reachable (s\<lparr>config := cfg\<rparr>)"
| save: "reachable s \<Longrightarrow> reachable (saveConfig s)"
| load: "reachable s \<Longrightarrow> loadConfig s = Returns s' \<Longrightarrow> reachable s'"
| start: "reachable s \<Longrightarrow> reachable (snd (startTrading t w s))"
| wake: "reachable s \<Longrightarrow> reachable (snd (resume w (p, s)))"
| stop: "reachable s \<Longrightarrow> reachable (stopTrading s)"
| view: "reachable s \<Longrightarrow> reachable (snd (runningTime t s))"




text \<open>The store with another value of \<^verbatim>\<open>maxLossRate\<close> in its configuration.\<close>

definition withMaxLossRate :: "real \<Rightarrow> store \<Rightarrow> store" where
  "withMaxLossRate x s = s\<lparr>config := (config s)\<lparr>maxLossRate := x\<rparr>\<rparr>"


text \<open>
  A running store with configuration \<open>cfg\<close> in which \<open>k\<close> cycles of 15 each have been
  added to the history \<open>h\<close>.
\<close>

definition fifteens :: "TradeConfig \<Rightarrow> real list \<Rightarrow> nat \<Rightarrow> store \<Rightarrow> bool" where
  "fifteens cfg h k s =
     (config s = cfg \<and> isTrading s \<and> totalVolume (stats s) = 15 * real k \<and>
      cyclesCompleted (stats s) = k \<and>
      map buyAmount (tradeHistory (stats s)) = h @ replicate k 15)"

subsection \<open>Example environments\<close>

definition okCall :: "'b \<Rightarrow> 'b call" where
  "okCall b = \<lparr>documentCookie = ''lang=en; cr00=abc'', answer = Resolves b\<rparr>"

text \<open>A world in which every call is answered and both orders are accepted.\<close>

definition goodWorld :: world where
  "goodWorld =
     \<lparr> balanceCall = okCall (Accounts [\<lparr>accountType = ''MAIN'',
          assetBalances = Some [\<lparr>asset = ''BNB'', free = 1\<rparr>, \<lparr>asset = ''USDT'', free = 100\<rparr>]\<rparr>]),
       mathRandom = 1 / 2,
       buyQuoteCall = okCall (QuoteOf \<lparr>toCoinAmount = 30, extra = ''q1''\<rparr>),
       buyCall = okCall (Order \<lparr>success = True, message = ServerMessage ''ok''\<rparr>),
       sellQuoteCall = okCall (QuoteOf \<lparr>toCoinAmount = 14, extra = ''q2''\<rparr>),
       sellCall = okCall (Order \<lparr>success = True, message = ServerMessage ''ok''\<rparr>),
       isoTime = ''2025-01-01T00:00:00.000Z'', now = 1735689600000 \<rparr>"

text \<open>The same world with 10 USDT on the account.\<close>

definition poorWorld :: world where
  "poorWorld =
     goodWorld\<lparr> balanceCall := okCall (Accounts [\<lparr>accountType = ''MAIN'',
       assetBalances = Some [\<lparr>asset = ''USDT'', free = 10\<rparr>]\<rparr>]) \<rparr>"

text \<open>The same world without the session cookie and without network.\<close>

definition offlineWorld :: world where
  "offlineWorld =
     goodWorld\<lparr> balanceCall := \<lparr>documentCookie = ''lang=en'', answer = Rejects ''Network Error''\<rparr> \<rparr>"

text \<open>A fresh store configured to trade 15 at a time up to a volume of 100.\<close>

definition fifteenStore :: store where
  "fifteenStore =
     (initStore Map.empty)\<lparr>config := defaultConfig\<lparr>minAmount := 15, maxAmount := 15,
                                                      targetVolume := 100\<rparr>\<rparr>"

section \<open>Properties\<close>

subsection \<open>The remote operations\<close>

lemma getHeaders_example:
  "getHeaders ''lang=en; cr00=abc'' =
     Inr \<lparr> Accept = ''*/*'', ContentType = ''application/json'', clienttype = ''web'',
           csrftoken = MD5 ''abc'' \<rparr>"
  by (simp add: getHeaders_def getCookieValue_def trim_def isSpace_def startsWith_def)

lemma getHeaders_missing:
  "getHeaders [] = Inl MissingCookie" "getHeaders ''lang=en'' = Inl MissingCookie"
  by (simp_all add: getHeaders_def getCookieValue_def trim_def isSpace_def startsWith_def)

lemma axiosCall_frame:
  "axiosCall c req s = (r, s') \<Longrightarrow> unchanged s s' \<and> logs s' = logs s"
  by (auto simp: axiosCall_def Let_def unchanged_def split: sum.splits axios.splits)

lemma getQuote_frame:
  "getQuote c ps s = (r, s') \<Longrightarrow> (\<exists>q. r = Inr q) \<and> unchanged s s'"
  by (auto simp: getQuote_def getQuote_try_def unchanged_def
      split: prod.splits sum.splits quote_body.splits dest!: axiosCall_frame)

lemma buyToken_frame:
  "buyToken c ps s = (r, s') \<Longrightarrow> (\<exists>q. r = Inr q) \<and> unchanged s s'"
  by (auto simp: buyToken_def unchanged_def split: prod.splits sum.splits dest!: axiosCall_frame)

lemma sellToken_frame:
  "sellToken c ps s = (r, s') \<Longrightarrow> (\<exists>q. r = Inr q) \<and> unchanged s s'"
  by (auto simp: sellToken_def unchanged_def split: prod.splits sum.splits dest!: axiosCall_frame)

lemma getUSDTBalance_frame:
  "getUSDTBalance c s = (r, s') \<Longrightarrow> (\<exists>q. r = Inr q) \<and> unchanged s s'"
  by (auto simp: getUSDTBalance_def getUSDTBalance_try_def unchanged_def
      split: prod.splits sum.splits balance_body.splits option.splits dest!: axiosCall_frame)













subsection \<open>One cycle\<close>

lemma runCycle_try_legs:
  "runCycle_try w s0 =
     (case getUSDTBalance (balanceCall w) s0 of
        (Inl e, s1) \<Rightarrow> (Inl e, s1)
      | (Inr usdtBalance, s1) \<Rightarrow>
     (let s2 = s1\<lparr>stats := (stats s1)\<lparr>currentBalance := usdtBalance\<rparr>\<rparr>;
          cfg = config s2
      in if usdtBalance < minUSDTRequired cfg
         then (Inr False,
               s2\<lparr>logs := logs s2 @ [InsufficientBalance usdtBalance (minUSDTRequired cfg)]\<rparr>)
         else
     (let fromAmount = mathRandom w * (maxAmount cfg - minAmount cfg) + minAmount cfg;
          s3 = s2\<lparr>logs := logs s2 @
                  [CycleStart (cyclesCompleted (stats s2) + 1) fromAmount (fromToken cfg)]\<rparr>
      in buyLeg w cfg fromAmount s3)))"
  unfolding runCycle_try_def buyLeg_def sellLeg_def by (rule refl)

lemma runCycle_try_inv:
  "runCycle_try w s = (r, s') \<Longrightarrow> statsInvariant (stats s) \<Longrightarrow> statsInvariant (stats s')"
  unfolding runCycle_try_def Let_def
  by (auto split: prod.splits sum.splits option.splits order_body.splits if_splits
        dest!: getQuote_frame buyToken_frame sellToken_frame getUSDTBalance_frame
        simp: unchanged_def statsInvariant_def recordTrade_def Let_def)

lemma runCycle_try_frame:
  "runCycle_try w s = (r, s') \<Longrightarrow>
     config s' = config s \<and> isTrading s' = isTrading s \<and> isConnected s' = isConnected s \<and>
     localStorage s' = localStorage s \<and> startTime (stats s') = startTime (stats s) \<and>
     runningTimeCache s' = runningTimeCache s"
  unfolding runCycle_try_def Let_def
  by (auto split: prod.splits sum.splits option.splits order_body.splits if_splits
        dest!: getQuote_frame buyToken_frame sellToken_frame getUSDTBalance_frame
        simp: unchanged_def recordTrade_def Let_def)

lemma runCycle_inv:
  "runCycle w s = (r, s') \<Longrightarrow> statsInvariant (stats s) \<Longrightarrow> statsInvariant (stats s')"
  by (auto simp: runCycle_def split: prod.splits sum.splits dest: runCycle_try_inv)

lemma runCycle_frame:
  "runCycle w s = (r, s') \<Longrightarrow>
     (\<exists>b. r = Inr b) \<and>
     config s' = config s \<and> isTrading s' = isTrading s \<and> isConnected s' = isConnected s \<and>
     localStorage s' = localStorage s \<and> startTime (stats s') = startTime (stats s) \<and>
     runningTimeCache s' = runningTimeCache s"
  by (auto simp: runCycle_def split: prod.splits sum.splits dest: runCycle_try_frame)

lemma loadConfig_stats: "loadConfig s = Returns s' \<Longrightarrow> stats s' = stats s"
  by (auto simp: loadConfig_def split: option.splits if_splits stored_text.splits)

lemma loopTop_inv:
  "statsInvariant (stats s) \<Longrightarrow> statsInvariant (stats (snd (loopTop w s)))"
  by (auto simp: loopTop_def stopTrading_def split: prod.splits sum.splits dest: runCycle_inv)

lemma resume_inv:
  "statsInvariant (stats s) \<Longrightarrow> statsInvariant (stats (snd (resume w (p, s))))"
  by (cases p) (simp_all add: loopTop_inv)

lemma startTrading_inv:
  assumes "statsInvariant (stats s)"
  shows "statsInvariant (stats (snd (startTrading t w s)))"
proof -
  let ?s = "s\<lparr> isTrading := True, stats := (stats s)\<lparr>startTime := t\<rparr>,
               runningTimeCache :=
                 (if t = startTime (stats s) then runningTimeCache s else None),
               logs := logs s @ [TradingStarted] \<rparr>"
  from assms have "statsInvariant (stats ?s)"
    by (simp add: statsInvariant_def)
  then have "statsInvariant (stats (snd (loopTop w ?s)))"
    by (rule loopTop_inv)
  with assms show ?thesis
    by (simp add: startTrading_def)
qed

lemma runningTime_stats: "stats (snd (runningTime t s)) = stats s"
  by (simp add: runningTime_def split: option.splits)

lemma reachable_inv: "reachable s \<Longrightarrow> statsInvariant (stats s)"
proof (induction rule: reachable.induct)
  case (init ls)
  show ?case
    by (simp add: initStore_def initStats_def statsInvariant_def)
next
  case (load s s')
  then show ?case
    by (simp add: loadConfig_stats)
qed (simp_all add: saveConfig_def stopTrading_def startTrading_inv resume_inv runningTime_stats)

lemma runCycle_goodWorld:
  "fst (runCycle goodWorld s) = Inr (\<not> 100 < minUSDTRequired (config s))"
  by (simp add: goodWorld_def okCall_def runCycle_def runCycle_try_def getUSDTBalance_def
      getUSDTBalance_try_def axiosCall_def getHeaders_example getQuote_def getQuote_try_def
      buyToken_def sellToken_def Let_def)

text \<open>
  Claim C1. From every reachable store a call of \<^verbatim>\<open>runCycle\<close> returns true or false, and in
  the store it leaves \<^verbatim>\<open>cyclesCompleted\<close> is the length of \<^verbatim>\<open>tradeHistory\<close> and
  \<^verbatim>\<open>totalVolume\<close> is the sum of the \<^verbatim>\<open>buyAmount\<close> of its records.
\<close>

theorem runCycle_keeps_stats_invariants:
  assumes "reachable s"
  shows "(\<exists>b. fst (runCycle w s) = Inr b) \<and>
         cyclesCompleted (stats (snd (runCycle w s))) =
           length (tradeHistory (stats (snd (runCycle w s)))) \<and>
         totalVolume (stats (snd (runCycle w s))) =
           sum_list (map buyAmount (tradeHistory (stats (snd (runCycle w s)))))"
proof -
  from assms have i: "statsInvariant (stats s)"
    by (rule reachable_inv)
  obtain r s' where rs: "runCycle w s = (r, s')"
    by (cases "runCycle w s")
  from runCycle_inv [OF rs i] runCycle_frame [OF rs] rs show ?thesis
    by (auto simp: statsInvariant_def)
qed

text \<open>Witness for C1: a successful cycle from the fresh store.\<close>

theorem runCycle_keeps_stats_invariants_witness:
  "reachable (initStore Map.empty) \<and>
   fst (runCycle goodWorld (initStore Map.empty)) = Inr True \<and>
   cyclesCompleted (stats (snd (runCycle goodWorld (initStore Map.empty)))) =
     length (tradeHistory (stats (snd (runCycle goodWorld (initStore Map.empty))))) \<and>
   totalVolume (stats (snd (runCycle goodWorld (initStore Map.empty)))) =
     sum_list (map buyAmount (tradeHistory (stats (snd (runCycle goodWorld (initStore Map.empty))))))"
proof -
  have r: "reachable (initStore Map.empty)"
    by (rule reachable.init)
  have t: "fst (runCycle goodWorld (initStore Map.empty)) = Inr True"
    by (simp add: runCycle_goodWorld initStore_def defaultConfig_def)
  from runCycle_keeps_stats_invariants [OF r, of goodWorld] r t show ?thesis
    by blast
qed

text \<open>
  Claim C5. When the balance fetched is below \<^verbatim>\<open>minUSDTRequired\<close>, \<^verbatim>\<open>runCycle\<close> returns false
  and changes no field of the statistics but \<^verbatim>\<open>currentBalance\<close>: the history, the number
  of cycles and the volume stay as they were.
\<close>

theorem runCycle_insufficient_balance:
  assumes "fst (getUSDTBalance (balanceCall w) s) = Inr b"
    and "b < minUSDTRequired (config s)"
  shows "fst (runCycle w s) = Inr False \<and>
         stats (snd (runCycle w s)) = (stats s)\<lparr>currentBalance := b\<rparr> \<and>
         tradeHistory (stats (snd (runCycle w s))) = tradeHistory (stats s) \<and>
         cyclesCompleted (stats (snd (runCycle w s))) = cyclesCompleted (stats s) \<and>
         totalVolume (stats (snd (runCycle w s))) = totalVolume (stats s)"
proof -
  obtain r s1 where g: "getUSDTBalance (balanceCall w) s = (r, s1)"
    by (cases "getUSDTBalance (balanceCall w) s")
  with assms(1) have r: "r = Inr b"
    by simp
  from getUSDTBalance_frame [OF g] have u: "unchanged s s1"
    by simp
  with assms(2) have "runCycle_try w s =
      (Inr False, s1\<lparr>stats := (stats s1)\<lparr>currentBalance := b\<rparr>,
                     logs := logs s1 @ [InsufficientBalance b (minUSDTRequired (config s1))]\<rparr>)"
    by (simp add: runCycle_try_def g r Let_def unchanged_def)
  with u show ?thesis
    by (simp add: runCycle_def unchanged_def)
qed

text \<open>Witness for C5: 10 USDT on the account, 50 required.\<close>

theorem runCycle_insufficient_balance_witness:
  "fst (getUSDTBalance (balanceCall poorWorld) (initStore Map.empty)) = Inr 10 \<and>
   (10 :: real) < minUSDTRequired (config (initStore Map.empty)) \<and>
   fst (runCycle poorWorld (initStore Map.empty)) = Inr False \<and>
   stats (snd (runCycle poorWorld (initStore Map.empty))) = initStats\<lparr>currentBalance := 10\<rparr>"
proof -
  have b: "fst (getUSDTBalance (balanceCall poorWorld) (initStore Map.empty)) = Inr 10"
    by (simp add: poorWorld_def goodWorld_def okCall_def getUSDTBalance_def
        getUSDTBalance_try_def axiosCall_def getHeaders_example)
  have m: "(10 :: real) < minUSDTRequired (config (initStore Map.empty))"
    by (simp add: initStore_def defaultConfig_def)
  have s: "stats (initStore Map.empty) = initStats"
    by (simp add: initStore_def)
  from runCycle_insufficient_balance [OF b m] b m show ?thesis
    by (simp add: s)
qed

subsection \<open>The control loop\<close>

lemma runCycle_try_success:
  "runCycle_try w s = (Inr True, s') \<Longrightarrow>
     config s' = config s \<and> isTrading s' = isTrading s \<and>
     totalVolume (stats s') = totalVolume (stats s) +
       (mathRandom w * (maxAmount (config s) - minAmount (config s)) + minAmount (config s)) \<and>
     cyclesCompleted (stats s') = cyclesCompleted (stats s) + 1 \<and>
     map buyAmount (tradeHistory (stats s')) = map buyAmount (tradeHistory (stats s)) @
       [mathRandom w * (maxAmount (config s) - minAmount (config s)) + minAmount (config s)]"
  unfolding runCycle_try_def Let_def
  by (auto split: prod.splits sum.splits option.splits order_body.splits if_splits
        dest!: getQuote_frame buyToken_frame sellToken_frame getUSDTBalance_frame
        simp: unchanged_def recordTrade_def Let_def)

lemma runCycle_success:
  "runCycle w s = (Inr True, s') \<Longrightarrow>
     config s' = config s \<and> isTrading s' = isTrading s \<and>
     totalVolume (stats s') = totalVolume (stats s) +
       (mathRandom w * (maxAmount (config s) - minAmount (config s)) + minAmount (config s)) \<and>
     cyclesCompleted (stats s') = cyclesCompleted (stats s) + 1 \<and>
     map buyAmount (tradeHistory (stats s')) = map buyAmount (tradeHistory (stats s)) @
       [mathRandom w * (maxAmount (config s) - minAmount (config s)) + minAmount (config s)]"
  by (auto simp: runCycle_def split: prod.splits sum.splits dest: runCycle_try_success)

lemma loopTop_fifteen:
  assumes cfg: "minAmount cfg = 15" "maxAmount cfg = 15" "targetVolume cfg = 100"
    and ok: "\<forall>s'. config s' = cfg \<longrightarrow> fst (runCycle w s') = Inr True"
    and a: "fifteens cfg h k s" and k: "k < 7"
  shows "\<exists>s'. loopTop w s = (InterCycle, s') \<and> fifteens cfg h (Suc k) s'"
proof -
  obtain r s' where rs: "runCycle w s = (r, s')"
    by (cases "runCycle w s")
  from ok a rs have r: "r = Inr True"
    by (auto simp: fifteens_def)
  from k have "15 * real k < 100"
    by simp
  with a cfg have go: "isTrading s \<and> totalVolume (stats s) < targetVolume (config s)"
    by (simp add: fifteens_def)
  from runCycle_success [OF rs [unfolded r]] a cfg have "fifteens cfg h (Suc k) s'"
    by (simp add: fifteens_def replicate_append_same)
  with go rs r show ?thesis
    by (simp add: loopTop_def)
qed

lemma loopTop_done:
  assumes "targetVolume cfg = 100" and "fifteens cfg h 7 s"
  shows "loopTop w s = (Returned, stopTrading s)"
  using assms by (simp add: loopTop_def fifteens_def)

lemma driveLoop_fifteen:
  assumes cfg: "minAmount cfg = 15" "maxAmount cfg = 15" "targetVolume cfg = 100"
  shows "fifteens cfg h k s \<Longrightarrow> k \<le> 7 \<Longrightarrow> length ws = 8 - k \<Longrightarrow>
         \<forall>w\<in>set ws. \<forall>s'. config s' = cfg \<longrightarrow> fst (runCycle w s') = Inr True \<Longrightarrow>
         \<exists>s'. driveLoop ws (InterCycle, s) = Some (stopTrading s') \<and> fifteens cfg h 7 s'"
proof (induction ws arbitrary: k s)
  case Nil
  then show ?case
    by simp
next
  case (Cons w ws)
  show ?case
  proof (cases "k = 7")
    case True
    with Cons.prems have "ws = []"
      by simp
    with True Cons.prems loopTop_done [OF cfg(3), of h s w] show ?thesis
      by auto
  next
    case False
    with Cons.prems have k: "k < 7"
      by simp
    from Cons.prems have okw: "\<forall>s'. config s' = cfg \<longrightarrow> fst (runCycle w s') = Inr True"
      by simp
    from loopTop_fifteen [OF cfg okw Cons.prems(1) k]
    obtain s1 where s1: "loopTop w s = (InterCycle, s1)" "fifteens cfg h (Suc k) s1"
      by blast
    from Cons.prems k have "Suc k \<le> 7" "length ws = 8 - Suc k"
      "\<forall>w\<in>set ws. \<forall>s'. config s' = cfg \<longrightarrow> fst (runCycle w s') = Inr True"
      by auto
    from Cons.IH [OF s1(2) this] s1(1) show ?thesis
      by simp
  qed
qed

lemma driveLoop_running:
  assumes cfg: "minAmount cfg = 15" "maxAmount cfg = 15" "targetVolume cfg = 100"
  shows "fifteens cfg h k s \<Longrightarrow> length ws + k \<le> 7 \<Longrightarrow>
         \<forall>w\<in>set ws. \<forall>s'. config s' = cfg \<longrightarrow> fst (runCycle w s') = Inr True \<Longrightarrow>
         driveLoop ws (InterCycle, s) = None"
proof (induction ws arbitrary: k s)
  case Nil
  then show ?case
    by simp
next
  case (Cons w ws)
  then have k: "k < 7"
    by simp
  from Cons.prems have okw: "\<forall>s'. config s' = cfg \<longrightarrow> fst (runCycle w s') = Inr True"
    by simp
  from loopTop_fifteen [OF cfg okw Cons.prems(1) k]
  obtain s1 where s1: "loopTop w s = (InterCycle, s1)" "fifteens cfg h (Suc k) s1"
    by blast
  from Cons.prems have "length ws + Suc k \<le> 7"
    "\<forall>w\<in>set ws. \<forall>s'. config s' = cfg \<longrightarrow> fst (runCycle w s') = Inr True"
    by auto
  from Cons.IH [OF s1(2) this] s1(1) show ?case
    by simp
qed

text \<open>
  Claim C6. With \<^verbatim>\<open>minAmount\<close> = \<^verbatim>\<open>maxAmount\<close> = 15 and \<^verbatim>\<open>targetVolume\<close> = 100, started from a
  volume of zero and with every cycle succeeding, the loop buys 15 seven times and returns
  at the test that follows the seventh cycle, with \<^verbatim>\<open>isTrading\<close> false, 7 cycles completed
  and a volume of 105; one timer earlier it has not returned.
\<close>

theorem driveLoop_stops_after_seven:
  assumes cfg: "minAmount (config s) = 15" "maxAmount (config s) = 15"
      "targetVolume (config s) = 100"
    and start: "\<not> isTrading s" "totalVolume (stats s) = 0" "cyclesCompleted (stats s) = 0"
    and ok: "\<forall>w\<in>set (w0 # ws). \<forall>s'. config s' = config s \<longrightarrow> fst (runCycle w s') = Inr True"
    and len: "length ws = 7"
  shows "\<exists>s'. driveLoop ws (startTrading t w0 s) = Some s' \<and> \<not> isTrading s' \<and>
           cyclesCompleted (stats s') = 7 \<and> totalVolume (stats s') = 105 \<and>
           map buyAmount (tradeHistory (stats s')) =
             map buyAmount (tradeHistory (stats s)) @ replicate 7 15 \<and>
           driveLoop (butlast ws) (startTrading t w0 s) = None"
proof -
  let ?h = "map buyAmount (tradeHistory (stats s))"
  let ?s0 = "s\<lparr> isTrading := True, stats := (stats s)\<lparr>startTime := t\<rparr>,
                runningTimeCache :=
                  (if t = startTime (stats s) then runningTimeCache s else None),
                logs := logs s @ [TradingStarted] \<rparr>"
  have a0: "fifteens (config s) ?h 0 ?s0"
    using start by (simp add: fifteens_def)
  from ok have ok0: "\<forall>s'. config s' = config s \<longrightarrow> fst (runCycle w0 s') = Inr True"
    by simp
  from loopTop_fifteen [OF cfg ok0 a0]
  obtain s1 where s1: "loopTop w0 ?s0 = (InterCycle, s1)" "fifteens (config s) ?h (Suc 0) s1"
    by auto
  from start s1 have st: "startTrading t w0 s = (InterCycle, s1)"
    by (simp add: startTrading_def)
  from ok have okws:
    "\<forall>w\<in>set ws. \<forall>s'. config s' = config s \<longrightarrow> fst (runCycle w s') = Inr True"
    by simp
  from driveLoop_fifteen [OF cfg s1(2) _ _ okws] len
  obtain s7 where s7: "driveLoop ws (InterCycle, s1) = Some (stopTrading s7)"
      "fifteens (config s) ?h 7 s7"
    by auto
  from okws have okb:
    "\<forall>w\<in>set (butlast ws). \<forall>s'. config s' = config s \<longrightarrow> fst (runCycle w s') = Inr True"
    by (auto dest: in_set_butlastD)
  from len have "length (butlast ws) + Suc 0 \<le> 7"
    by simp
  from driveLoop_running [OF cfg s1(2) this okb]
  have "driveLoop (butlast ws) (InterCycle, s1) = None" .
  with s7 st show ?thesis
    by (simp add: fifteens_def stopTrading_def)
qed

text \<open>Witness for C6: the store configured for 15 and 100, in eight good worlds.\<close>

theorem driveLoop_stops_after_seven_witness:
  "\<exists>s'. driveLoop (replicate 7 goodWorld) (startTrading 1000 goodWorld fifteenStore) = Some s' \<and>
     \<not> isTrading s' \<and> cyclesCompleted (stats s') = 7 \<and> totalVolume (stats s') = 105 \<and>
     map buyAmount (tradeHistory (stats s')) = replicate 7 15 \<and>
     driveLoop (replicate 6 goodWorld) (startTrading 1000 goodWorld fifteenStore) = None"
proof -
  have c: "minAmount (config fifteenStore) = 15" "maxAmount (config fifteenStore) = 15"
    "targetVolume (config fifteenStore) = 100"
    by (simp_all add: fifteenStore_def initStore_def)
  have i: "\<not> isTrading fifteenStore" "totalVolume (stats fifteenStore) = 0"
    "cyclesCompleted (stats fifteenStore) = 0"
    by (simp_all add: fifteenStore_def initStore_def initStats_def)
  have h: "tradeHistory (stats fifteenStore) = []"
    by (simp add: fifteenStore_def initStore_def initStats_def)
  have m: "minUSDTRequired (config fifteenStore) = 50"
    by (simp add: fifteenStore_def initStore_def defaultConfig_def)
  have ok: "\<forall>w\<in>set (goodWorld # replicate 7 goodWorld).
      \<forall>s'. config s' = config fifteenStore \<longrightarrow> fst (runCycle w s') = Inr True"
    by (simp add: runCycle_goodWorld m)
  have b: "butlast (replicate 7 goodWorld) = replicate 6 goodWorld"
    by (simp add: butlast_conv_take)
  from driveLoop_stops_after_seven [OF c i ok, of 1000] show ?thesis
    by (simp add: h b)
qed

text \<open>
  Claim C2, as the code has it. The stop flag is tested only by the \<^verbatim>\<open>while\<close>. A call
  suspended in the inter-cycle timer when \<^verbatim>\<open>stopTrading\<close> runs returns as soon as that
  timer fires. A call suspended in the backoff timer goes on to the inter-cycle timer and
  returns when that one fires, so after at most 30000 + 60000 ms. In both cases no further
  cycle starts: the statistics and the outbox stay as they were.
\<close>

theorem stop_during_delay_returns:
  "resume w (InterCycle, stopTrading s) = (Returned, stopTrading (stopTrading s)) \<and>
   resume w (Backoff, stopTrading s) = (InterCycle, stopTrading s) \<and>
   driveLoop [w] (InterCycle, stopTrading s) = Some (stopTrading (stopTrading s)) \<and>
   driveLoop [w] (Backoff, stopTrading s) = None \<and>
   driveLoop [w, w'] (Backoff, stopTrading s) = Some (stopTrading (stopTrading s)) \<and>
   stats (stopTrading (stopTrading s)) = stats s \<and>
   outbox (stopTrading (stopTrading s)) = outbox s \<and>
   timeToReturn [w] (InterCycle, stopTrading s) = Some 60000 \<and>
   timeToReturn [w, w'] (Backoff, stopTrading s) = Some 90000"
  by (simp add: loopTop_def stopTrading_def delayOf_def)

lemma startTrading_offline:
  "fst (startTrading 1000 offlineWorld (initStore Map.empty)) = Backoff"
  by (simp add: startTrading_def loopTop_def initStore_def initStats_def defaultConfig_def
      runCycle_def runCycle_try_def getUSDTBalance_def getUSDTBalance_try_def axiosCall_def
      offlineWorld_def goodWorld_def getHeaders_missing Let_def)

text \<open>
  Counterexample to C2 as stated: a run whose first cycle fails is suspended in the backoff
  timer; \<^verbatim>\<open>stopTrading\<close> is called; when the timer fires the call does not return but is
  suspended again, in the inter-cycle timer of 60000 ms, so that up to 90000 ms pass before
  it returns, more than either delay.
\<close>

theorem stop_during_backoff_not_observed:
  "fst (startTrading 1000 offlineWorld (initStore Map.empty)) = Backoff \<and>
   fst (resume goodWorld
         (Backoff, stopTrading (snd (startTrading 1000 offlineWorld (initStore Map.empty)))))
     = InterCycle \<and>
   InterCycle \<noteq> Returned \<and>
   timeToReturn [goodWorld, goodWorld]
     (Backoff, stopTrading (snd (startTrading 1000 offlineWorld (initStore Map.empty))))
     = Some 90000 \<and>
   delayOf Backoff = 30000 \<and> delayOf InterCycle = 60000"
  by (simp add: startTrading_offline delayOf_def loopTop_def stopTrading_def)

text \<open>
  Claim C9, as the code has it. \<^verbatim>\<open>stopTrading\<close> on a store that is not trading leaves the
  flag, the configuration and the statistics as they are and appends one entry to the log,
  each time it is called.
\<close>

theorem stopTrading_idle:
  assumes "\<not> isTrading s"
  shows "stopTrading s = s\<lparr>logs := logs s @ [TradingStopped]\<rparr> \<and>
         stopTrading (stopTrading s) = s\<lparr>logs := logs s @ [TradingStopped, TradingStopped]\<rparr>"
  using assms by (simp add: stopTrading_def)

text \<open>Witness for C9: the fresh store.\<close>

theorem stopTrading_idle_witness:
  "\<not> isTrading (initStore Map.empty) \<and>
   stopTrading (initStore Map.empty) = (initStore Map.empty)\<lparr>logs := [TradingStopped]\<rparr> \<and>
   stopTrading (stopTrading (initStore Map.empty)) =
     (initStore Map.empty)\<lparr>logs := [TradingStopped, TradingStopped]\<rparr>"
proof -
  have i: "\<not> isTrading (initStore Map.empty)" "logs (initStore Map.empty) = []"
    by (simp_all add: initStore_def)
  from stopTrading_idle [OF i(1), unfolded i(2) append_Nil] i(1) show ?thesis
    by blast
qed

text \<open>
  Counterexample to C9 as stated: on the fresh store, which is idle, \<^verbatim>\<open>stopTrading\<close>
  changes the log, and a second call changes it again.
\<close>

theorem stopTrading_idle_changes_log:
  "\<not> isTrading (initStore Map.empty) \<and>
   logs (stopTrading (initStore Map.empty)) \<noteq> logs (initStore Map.empty) \<and>
   stopTrading (stopTrading (initStore Map.empty)) \<noteq> stopTrading (initStore Map.empty)"
  by (simp add: stopTrading_def initStore_def)

subsection \<open>The maximal loss rate\<close>

lemma withMaxLossRate_simps:
  "stats (withMaxLossRate x s) = stats s"
  "logs (withMaxLossRate x s) = logs s"
  "config (withMaxLossRate x s) = (config s)\<lparr>maxLossRate := x\<rparr>"
  "isTrading (withMaxLossRate x s) = isTrading s"
  "(withMaxLossRate x s)\<lparr>stats := st\<rparr> = withMaxLossRate x (s\<lparr>stats := st\<rparr>)"
  "(withMaxLossRate x s)\<lparr>logs := lg\<rparr> = withMaxLossRate x (s\<lparr>logs := lg\<rparr>)"
  "(withMaxLossRate x s)\<lparr>isTrading := b\<rparr> = withMaxLossRate x (s\<lparr>isTrading := b\<rparr>)"
  "runningTimeCache (withMaxLossRate x s) = runningTimeCache s"
  "(withMaxLossRate x s)\<lparr>runningTimeCache := c\<rparr> =
     withMaxLossRate x (s\<lparr>runningTimeCache := c\<rparr>)"
  by (simp_all add: withMaxLossRate_def)

lemma axiosCall_config:
  "axiosCall c req (s\<lparr>config := cfg\<rparr>) =
     (fst (axiosCall c req s), (snd (axiosCall c req s))\<lparr>config := cfg\<rparr>)"
  by (simp add: axiosCall_def Let_def split: sum.splits axios.splits)

lemma getQuote_config:
  "getQuote c ps (s\<lparr>config := cfg\<rparr>) =
     (fst (getQuote c ps s), (snd (getQuote c ps s))\<lparr>config := cfg\<rparr>)"
  by (simp add: getQuote_def getQuote_try_def axiosCall_config
      split: prod.splits sum.splits quote_body.splits)

lemma buyToken_config:
  "buyToken c ps (s\<lparr>config := cfg\<rparr>) =
     (fst (buyToken c ps s), (snd (buyToken c ps s))\<lparr>config := cfg\<rparr>)"
  by (simp add: buyToken_def axiosCall_config split: prod.splits sum.splits)

lemma sellToken_config:
  "sellToken c ps (s\<lparr>config := cfg\<rparr>) =
     (fst (sellToken c ps s), (snd (sellToken c ps s))\<lparr>config := cfg\<rparr>)"
  by (simp add: sellToken_def axiosCall_config split: prod.splits sum.splits)

lemma getUSDTBalance_config:
  "getUSDTBalance c (s\<lparr>config := cfg\<rparr>) =
     (fst (getUSDTBalance c s), (snd (getUSDTBalance c s))\<lparr>config := cfg\<rparr>)"
  by (simp add: getUSDTBalance_def getUSDTBalance_try_def axiosCall_config
      split: prod.splits sum.splits balance_body.splits option.splits)

lemma ops_maxLossRate:
  "getUSDTBalance cu s = (ru, su) \<Longrightarrow>
     getUSDTBalance cu (withMaxLossRate x s) = (ru, withMaxLossRate x su)"
  "getQuote cq ps s = (rq, sq) \<Longrightarrow>
     getQuote cq ps (withMaxLossRate x s) = (rq, withMaxLossRate x sq)"
  "buyToken cb ps s = (rb, sb) \<Longrightarrow>
     buyToken cb ps (withMaxLossRate x s) = (rb, withMaxLossRate x sb)"
  "sellToken cs ps s = (rs, ss) \<Longrightarrow>
     sellToken cs ps (withMaxLossRate x s) = (rs, withMaxLossRate x ss)"
  by (auto simp: withMaxLossRate_def getUSDTBalance_config getQuote_config buyToken_config
      sellToken_config unchanged_def
      dest: getQuote_frame buyToken_frame sellToken_frame getUSDTBalance_frame)

lemma params_maxLossRate:
  "buyQuoteParams (cfg\<lparr>maxLossRate := x\<rparr>) a = buyQuoteParams cfg a"
  "buyParams (cfg\<lparr>maxLossRate := x\<rparr>) a q = buyParams cfg a q"
  "sellQuoteParams (cfg\<lparr>maxLossRate := x\<rparr>) q = sellQuoteParams cfg q"
  "sellParams (cfg\<lparr>maxLossRate := x\<rparr>) q q' = sellParams cfg q q'"
  by (simp_all add: buyQuoteParams_def buyParams_def sellQuoteParams_def sellParams_def)

lemma recordTrade_maxLossRate:
  "recordTrade w a q (withMaxLossRate x s) = withMaxLossRate x (recordTrade w a q s)"
  by (simp add: recordTrade_def withMaxLossRate_def Let_def)

lemma sellLeg_maxLossRate:
  "sellLeg w cfg a q s = (r, s') \<Longrightarrow>
   sellLeg w (cfg\<lparr>maxLossRate := x\<rparr>) a q (withMaxLossRate x s) = (r, withMaxLossRate x s')"
  unfolding sellLeg_def
  by (auto split: prod.splits sum.splits option.splits order_body.splits if_splits
        simp: withMaxLossRate_simps ops_maxLossRate params_maxLossRate recordTrade_maxLossRate)

lemma buyLeg_maxLossRate:
  "buyLeg w cfg a s = (r, s') \<Longrightarrow>
   buyLeg w (cfg\<lparr>maxLossRate := x\<rparr>) a (withMaxLossRate x s) = (r, withMaxLossRate x s')"
  unfolding buyLeg_def
  by (auto split: prod.splits sum.splits option.splits order_body.splits if_splits
        simp: withMaxLossRate_simps ops_maxLossRate params_maxLossRate sellLeg_maxLossRate)

lemma runCycle_try_maxLossRate:
  "runCycle_try w s = (r, s') \<Longrightarrow>
   runCycle_try w (withMaxLossRate x s) = (r, withMaxLossRate x s')"
  unfolding runCycle_try_legs Let_def
  by (auto split: prod.splits sum.splits if_splits
        simp: withMaxLossRate_simps ops_maxLossRate buyLeg_maxLossRate)

lemma runCycle_maxLossRate:
  "runCycle w s = (r, s') \<Longrightarrow> runCycle w (withMaxLossRate x s) = (r, withMaxLossRate x s')"
  unfolding runCycle_def
  by (auto split: prod.splits sum.splits simp: withMaxLossRate_simps runCycle_try_maxLossRate)

lemma stopTrading_maxLossRate:
  "stopTrading (withMaxLossRate x s) = withMaxLossRate x (stopTrading s)"
  by (simp add: stopTrading_def withMaxLossRate_def)

lemma loopTop_maxLossRate:
  "loopTop w s = (p, s') \<Longrightarrow> loopTop w (withMaxLossRate x s) = (p, withMaxLossRate x s')"
  unfolding loopTop_def
  by (auto split: prod.splits sum.splits if_splits
      simp: withMaxLossRate_simps runCycle_maxLossRate stopTrading_maxLossRate)

lemma resume_maxLossRate:
  "resume w (p, s) = (p', s') \<Longrightarrow>
   resume w (p, withMaxLossRate x s) = (p', withMaxLossRate x s')"
  by (cases p) (auto simp: loopTop_maxLossRate)

lemma startTrading_maxLossRate:
  "startTrading t w s = (p, s') \<Longrightarrow>
   startTrading t w (withMaxLossRate x s) = (p, withMaxLossRate x s')"
  unfolding startTrading_def
  by (auto split: if_splits simp: withMaxLossRate_simps dest!: loopTop_maxLossRate [where x = x])

text \<open>
  Claim C10. No operation of the trading core reads \<^verbatim>\<open>maxLossRate\<close>: on two stores that
  differ in this field only and in the same world, \<^verbatim>\<open>runCycle\<close>, \<^verbatim>\<open>startTrading\<close>, the
  firing of a timer of the loop and \<^verbatim>\<open>stopTrading\<close> return the same value and leave stores
  that again differ in this field only (same statistics, log, requests sent and flag).
\<close>

theorem maxLossRate_inert:
  "runCycle w (withMaxLossRate x s) =
     (fst (runCycle w s), withMaxLossRate x (snd (runCycle w s))) \<and>
   startTrading t w (withMaxLossRate x s) =
     (fst (startTrading t w s), withMaxLossRate x (snd (startTrading t w s))) \<and>
   resume w (p, withMaxLossRate x s) =
     (fst (resume w (p, s)), withMaxLossRate x (snd (resume w (p, s)))) \<and>
   stopTrading (withMaxLossRate x s) = withMaxLossRate x (stopTrading s)"
  by (simp add: runCycle_maxLossRate startTrading_maxLossRate resume_maxLossRate
      stopTrading_maxLossRate)

subsection \<open>Persisted configuration\<close>

text \<open>
  Claim C8. After \<^verbatim>\<open>saveConfig\<close> with the configuration \<open>cfg\<close>, \<^verbatim>\<open>loadConfig\<close> sets the
  configuration to \<open>cfg\<close>, field for field, whatever it has become in between; and what
  \<^verbatim>\<open>saveConfig\<close> stores is the whole of \<open>cfg\<close>, whatever was stored before.
\<close>

theorem saveConfig_loadConfig_roundtrip:
  "loadConfig ((saveConfig (s\<lparr>config := cfg\<rparr>))\<lparr>config := other\<rparr>) =
     Returns (saveConfig (s\<lparr>config := cfg\<rparr>)) \<and>
   config (saveConfig (s\<lparr>config := cfg\<rparr>)) = cfg \<and>
   localStorage (saveConfig (s\<lparr>config := cfg, localStorage := ls\<rparr>)) ''tradingConfig'' =
     Some (ConfigJson cfg)"
  by (simp add: loadConfig_def saveConfig_def)

text \<open>
  Claim C3, as the code has it. When no record is stored, or the empty string, \<^verbatim>\<open>loadConfig\<close>
  throws nothing and leaves the store as it is: the configuration stays what it was, which
  on a store just created is the built-in default.
\<close>

theorem loadConfig_missing_keeps_config:
  assumes "localStorage s ''tradingConfig'' = None \<or>
           localStorage s ''tradingConfig'' = Some (Raw [])"
  shows "loadConfig s = Returns s"
  using assms by (auto simp: loadConfig_def)

text \<open>Witness for C3: a store just created in a browser with nothing stored.\<close>

theorem loadConfig_missing_keeps_config_witness:
  "localStorage (initStore Map.empty) ''tradingConfig'' = None \<and>
   loadConfig (initStore Map.empty) = Returns (initStore Map.empty) \<and>
   config (initStore Map.empty) = defaultConfig"
proof -
  have n: "localStorage (initStore Map.empty) ''tradingConfig'' = None"
    by (simp add: initStore_def)
  have c: "config (initStore Map.empty) = defaultConfig"
    by (simp add: initStore_def)
  from loadConfig_missing_keeps_config [of "initStore Map.empty"] n c show ?thesis
    by blast
qed

text \<open>
  Counterexample to C3 as stated: with a stored text that is no JSON, \<^verbatim>\<open>loadConfig\<close> on a
  store just created throws the SyntaxError of \<^verbatim>\<open>JSON.parse\<close>; and with nothing stored,
  \<^verbatim>\<open>loadConfig\<close> on a store whose configuration has been edited keeps the edited one, not the
  default.
\<close>

theorem loadConfig_corrupt_throws:
  "loadConfig (initStore [''tradingConfig'' \<mapsto> Raw ''{oops'']) = Throws SyntaxError \<and>
   loadConfig ((initStore Map.empty)\<lparr>config := defaultConfig\<lparr>minAmount := 15\<rparr>\<rparr>) =
     Returns ((initStore Map.empty)\<lparr>config := defaultConfig\<lparr>minAmount := 15\<rparr>\<rparr>) \<and>
   defaultConfig\<lparr>minAmount := 15\<rparr> \<noteq> defaultConfig"
  by (simp add: loadConfig_def initStore_def defaultConfig_def)

subsection \<open>Running time\<close>
















end
